theory Spec2Isabelle
  imports Main
begin

section \<open>Values of the introspection wire format\<close>

text \<open>
  The module \<^verbatim>\<open>clairvoyance/graphql.py\<close> works on the values that Python's
  \<^verbatim>\<open>json\<close> library produces: \<^verbatim>\<open>None\<close>, booleans, numbers, strings, lists and
  dictionaries with string keys. A dictionary is an association list, looked up
  from the left. Numbers are integers here (the module never computes with a number).
  The attributes \<^verbatim>\<open>name\<close> and \<^verbatim>\<open>kind\<close> of the classes are annotated \<^verbatim>\<open>str\<close>, but the
  decoders store whatever value the wire node holds, so they are wire values in the model.
  Python's \<^verbatim>\<open>==\<close> is modelled by equality of values; every comparison of the module has a
  string on one side in the inputs considered below, where the two agree.
\<close>

datatype json =
    JNull
  | JBool bool
  | JInt int
  | JStr string
  | JList "json list"
  | JObj "(string \<times> json) list"

datatype message =
    Unexpected_kind json
  | Too_many_ofType
  | Not_in_schema string
  | Unknown_operation_type

datatype error =
    KeyError string
  | TypeError
  | IndexError
  | AttributeError string
  | NameError string
  | Exception message

fun bind_err :: "error + 'a \<Rightarrow> ('a \<Rightarrow> error + 'b) \<Rightarrow> error + 'b" where
  "bind_err (Inl e) f = Inl e"
| "bind_err (Inr v) f = f v"

text \<open>Python's truth value of a wire value (\<^verbatim>\<open>not x\<close>, \<^verbatim>\<open>if x\<close>, \<^verbatim>\<open>x or y\<close>).\<close>

fun truthy :: "json \<Rightarrow> bool" where
  "truthy JNull = False"
| "truthy (JBool b) = b"
| "truthy (JInt i) = (i \<noteq> 0)"
| "truthy (JStr s) = (s \<noteq> [])"
| "truthy (JList xs) = (xs \<noteq> [])"
| "truthy (JObj kvs) = (kvs \<noteq> [])"

text \<open>\<^verbatim>\<open>x[k]\<close> with a string key: only a dictionary can be subscripted so.\<close>

fun subscript :: "json \<Rightarrow> string \<Rightarrow> error + json" where
  "subscript (JObj kvs) k = (case map_of kvs k of None \<Rightarrow> Inl (KeyError k) | Some v \<Rightarrow> Inr v)"
| "subscript JNull k = Inl TypeError"
| "subscript (JBool b) k = Inl TypeError"
| "subscript (JInt i) k = Inl TypeError"
| "subscript (JStr s) k = Inl TypeError"
| "subscript (JList xs) k = Inl TypeError"

section \<open>TypeRef\<close>

text \<open>
  The class \<^verbatim>\<open>TypeRef\<close>: six constructor arguments and three attributes derived from
  them in \<^verbatim>\<open>__init__\<close> (\<^verbatim>\<open>non_null\<close>, \<^verbatim>\<open>list\<close>, \<^verbatim>\<open>non_null_item\<close>). \<^verbatim>\<open>__eq__\<close> compares every
  attribute, which is equality of the record.
\<close>

record TypeRef =
  ref_name :: json
  ref_kind :: json
  is_list :: bool
  is_list_item_nullable :: bool
  is_nullable :: bool
  is_input_object :: bool
  non_null :: bool
  list_attr :: bool
  non_null_item :: bool

definition TypeRef_init :: "json \<Rightarrow> json \<Rightarrow> bool \<Rightarrow> bool \<Rightarrow> bool \<Rightarrow> bool \<Rightarrow> TypeRef" where
  "TypeRef_init n k il ilin inl iio =
     \<lparr> ref_name = n, ref_kind = k, is_list = il, is_list_item_nullable = ilin,
       is_nullable = inl, is_input_object = iio,
       non_null = (\<not> inl), list_attr = il, non_null_item = (\<not> ilin) \<rparr>"

text \<open>\<^verbatim>\<open>TypeRef()\<close>, \<^verbatim>\<open>TypeRef(name=n, kind=k)\<close>: the defaults of the signature.\<close>

definition TypeRef_default :: TypeRef where
  "TypeRef_default = TypeRef_init (JStr []) (JStr []) False False True False"

definition wire_node :: "json \<Rightarrow> json \<Rightarrow> json \<Rightarrow> json" where
  "wire_node k n t = JObj [(''kind'', k), (''name'', n), (''ofType'', t)]"

text \<open>
  \<^verbatim>\<open>TypeRef.to_json\<close>. The last branch reads \<^verbatim>\<open>self.ofType\<close>, an attribute that no
  \<^verbatim>\<open>TypeRef\<close> has: Python raises AttributeError there.
\<close>

definition TypeRef_to_json :: "TypeRef \<Rightarrow> error + json" where
  "TypeRef_to_json r =
     (let j0 = wire_node (ref_kind r) (ref_name r) JNull;
          j1 = (if non_null_item r then wire_node (JStr ''NON_NULL'') JNull j0 else j0);
          j2 = (if list_attr r then wire_node (JStr ''LIST'') JNull j1 else j1);
          j3 = (if non_null r then wire_node (JStr ''NON_NULL'') JNull j2 else j2)
      in if is_input_object r then Inl (AttributeError ''ofType'') else Inr j3)"

text \<open>
  \<^verbatim>\<open>field_or_arg_type_from_json\<close>. The variable \<^verbatim>\<open>typ\<close> starts as \<^verbatim>\<open>None\<close> and is
  returned at the end, so the result is an optional \<^verbatim>\<open>TypeRef\<close>.
\<close>

definition named_ref :: "json \<Rightarrow> bool \<Rightarrow> bool \<Rightarrow> bool \<Rightarrow> bool \<Rightarrow> error + TypeRef option" where
  "named_ref actual_type il ilin inl iio =
     bind_err (subscript actual_type ''name'') (\<lambda>n.
     bind_err (subscript actual_type ''kind'') (\<lambda>k.
       Inr (Some (TypeRef_init n k il ilin inl iio))))"

definition field_or_arg_type_from_json :: "json \<Rightarrow> error + TypeRef option" where
  "field_or_arg_type_from_json jso =
     bind_err (subscript jso ''kind'') (\<lambda>kind.
       if kind \<noteq> JStr ''NON_NULL'' \<and> kind \<noteq> JStr ''LIST'' then
         named_ref jso False False True False
       else
         bind_err (subscript jso ''ofType'') (\<lambda>o1.
         bind_err (subscript o1 ''ofType'') (\<lambda>o2.
           if \<not> truthy o2 then
             (if kind = JStr ''NON_NULL'' then named_ref o1 False False False False
              else if kind = JStr ''LIST'' then named_ref o1 True False True False
              else if kind = JStr ''INPUT_OBJECT'' then named_ref o1 False False True True
              else Inl (Exception (Unexpected_kind kind)))
           else
             bind_err (subscript o2 ''ofType'') (\<lambda>o3.
               if \<not> truthy o3 then
                 (if kind = JStr ''NON_NULL'' then Inr None
                  else if kind = JStr ''LIST'' then named_ref o2 True False True False
                  else Inl (Exception (Unexpected_kind kind)))
               else
                 bind_err (subscript o3 ''ofType'') (\<lambda>o4.
                   if \<not> truthy o4 then named_ref o3 True False False False
                   else Inl (Exception Too_many_ofType))))))"

section \<open>Fields and input values\<close>

text \<open>
  \<^verbatim>\<open>for x in v\<close>: a list yields its items, a dictionary its keys, a string its characters
  (as strings of length one); nothing else can be iterated.
\<close>

fun py_iter :: "json \<Rightarrow> error + json list" where
  "py_iter (JList xs) = Inr xs"
| "py_iter (JObj kvs) = Inr (map (\<lambda>kv. JStr (fst kv)) kvs)"
| "py_iter (JStr s) = Inr (map (\<lambda>c. JStr [c]) s)"
| "py_iter JNull = Inl TypeError"
| "py_iter (JBool b) = Inl TypeError"
| "py_iter (JInt i) = Inl TypeError"

text \<open>A loop that appends \<^verbatim>\<open>f(x)\<close> for every item and stops at the first exception.\<close>

fun for_each :: "('a \<Rightarrow> error + 'b) \<Rightarrow> 'a list \<Rightarrow> error + 'b list" where
  "for_each f [] = Inr []"
| "for_each f (x # xs) =
     bind_err (f x) (\<lambda>y. bind_err (for_each f xs) (\<lambda>ys. Inr (y # ys)))"

record InputValue =
  iv_name :: json
  iv_type :: TypeRef

record Field =
  field_name :: json
  field_type :: TypeRef
  field_args :: "InputValue list"

text \<open>
  \<^verbatim>\<open>InputValue.__init__\<close> assigns \<^verbatim>\<open>self.defaultValue = none\<close>. There is no name \<^verbatim>\<open>none\<close>
  in the module (the constant is \<^verbatim>\<open>None\<close>), so the statement raises NameError, after the
  two assignments before it, for every argument.
\<close>

definition InputValue_init :: "json \<Rightarrow> TypeRef option \<Rightarrow> error + InputValue" where
  "InputValue_init n typ = Inl (NameError ''none'')"

text \<open>\<^verbatim>\<open>Field.__init__\<close>: \<^verbatim>\<open>typ or TypeRef()\<close>, \<^verbatim>\<open>args or []\<close>.\<close>

definition Field_init :: "json \<Rightarrow> TypeRef option \<Rightarrow> InputValue list option \<Rightarrow> Field" where
  "Field_init n typ args =
     \<lparr> field_name = n,
       field_type = (case typ of None \<Rightarrow> TypeRef_default | Some r \<Rightarrow> r),
       field_args = (case args of None \<Rightarrow> [] | Some as \<Rightarrow> as) \<rparr>"

definition InputValue_to_json :: "InputValue \<Rightarrow> error + json" where
  "InputValue_to_json v =
     bind_err (TypeRef_to_json (iv_type v)) (\<lambda>t.
       Inr (JObj [(''defaultValue'', JNull), (''description'', JNull),
                  (''name'', iv_name v), (''type'', t)]))"

definition Field_to_json :: "Field \<Rightarrow> error + json" where
  "Field_to_json f =
     bind_err (for_each InputValue_to_json (field_args f)) (\<lambda>as.
     bind_err (TypeRef_to_json (field_type f)) (\<lambda>t.
       Inr (JObj [(''args'', JList as), (''deprecationReason'', JNull),
                  (''description'', JNull), (''isDeprecated'', JBool False),
                  (''name'', field_name f), (''type'', t)])))"

text \<open>
  \<^verbatim>\<open>Field.from_json\<close> and \<^verbatim>\<open>InputValue.from_json\<close> call each other through the lists
  \<^verbatim>\<open>args\<close> and \<^verbatim>\<open>input_fields\<close>. Each call is on a value inside the one at hand, which is
  what the termination proof uses.
\<close>

lemma bind_err_cong [fundef_cong]:
  "m = m' \<Longrightarrow> (\<And>v. m' = Inr v \<Longrightarrow> f v = g v) \<Longrightarrow> bind_err m f = bind_err m' g"
  by (cases m') auto

lemma for_each_cong [fundef_cong]:
  "xs = ys \<Longrightarrow> (\<And>x. x \<in> set ys \<Longrightarrow> f x = g x) \<Longrightarrow> for_each f xs = for_each g ys"
  by (induction ys arbitrary: xs) auto

lemma size_member_obj: "(k, v) \<in> set kvs \<Longrightarrow> size v < size (JObj kvs)"
  by (induction kvs) auto

lemma size_member_list: "x \<in> set xs \<Longrightarrow> size x < size (JList xs)"
  by (induction xs) auto

lemma subscript_size: "subscript j k = Inr v \<Longrightarrow> size v < size j"
  by (cases j) (auto split: option.splits dest!: map_of_SomeD size_member_obj)

lemma py_iter_size: "py_iter j = Inr xs \<Longrightarrow> x \<in> set xs \<Longrightarrow> size x \<le> size j"
  by (cases j) (auto dest: size_member_list less_imp_le)

lemma item_size:
  "subscript j k = Inr v \<Longrightarrow> py_iter v = Inr xs \<Longrightarrow> x \<in> set xs \<Longrightarrow> size x < size j"
  using subscript_size py_iter_size by (meson le_less_trans)

function Field_from_json :: "json \<Rightarrow> error + Field"
  and InputValue_from_json :: "json \<Rightarrow> error + InputValue" where
  "Field_from_json jso =
     bind_err (subscript jso ''name'') (\<lambda>n.
     bind_err (subscript jso ''type'') (\<lambda>tj.
     bind_err (field_or_arg_type_from_json tj) (\<lambda>typ.
     bind_err (subscript jso ''args'') (\<lambda>aj.
     bind_err (py_iter aj) (\<lambda>items.
     bind_err (for_each InputValue_from_json items) (\<lambda>args.
       Inr (Field_init n typ (Some args))))))))"
| "InputValue_from_json jso =
     bind_err (subscript jso ''name'') (\<lambda>n.
     bind_err (subscript jso ''type'') (\<lambda>tj.
     bind_err (field_or_arg_type_from_json tj) (\<lambda>typ.
     bind_err (subscript jso ''input_fields'') (\<lambda>fj.
     bind_err (py_iter fj) (\<lambda>items.
     bind_err (for_each Field_from_json items) (\<lambda>input_fields.
       InputValue_init n typ))))))"
  by pat_completeness auto
termination
  by (relation "measure (\<lambda>x. case x of Inl j \<Rightarrow> size j | Inr j \<Rightarrow> size j)")
     (auto dest: item_size)

section \<open>Type\<close>

record Type =
  type_name :: json
  type_kind :: json
  type_fields :: "Field list"

text \<open>\<^verbatim>\<open>Type.__init__\<close>: \<^verbatim>\<open>fields or []\<close>.\<close>

definition Type_init :: "json \<Rightarrow> json \<Rightarrow> Field list option \<Rightarrow> Type" where
  "Type_init n k fs =
     \<lparr> type_name = n, type_kind = k,
       type_fields = (case fs of None \<Rightarrow> [] | Some l \<Rightarrow> l) \<rparr>"

text \<open>The placeholder of \<^verbatim>\<open>Type.to_json\<close>: \<^verbatim>\<open>Field("dummy")\<close> with its type replaced.\<close>

definition dummy :: Field where
  "dummy = (Field_init (JStr ''dummy'') None None)
             \<lparr> field_type := TypeRef_init (JStr ''String'') (JStr ''SCALAR'') False False True False \<rparr>"

text \<open>
  \<^verbatim>\<open>Type.to_json\<close> changes the object it serializes (it appends the placeholder to an empty
  field list), so the model returns the wire object together with the \<^verbatim>\<open>Type\<close> after
  the call. The keys \<^verbatim>\<open>fields\<close> and \<^verbatim>\<open>inputFields\<close> are assigned in two branches only.
\<close>

definition Type_to_json :: "Type \<Rightarrow> error + (json \<times> Type)" where
  "Type_to_json t =
     (let t' = (if type_fields t = [] then t \<lparr> type_fields := type_fields t @ [dummy] \<rparr> else t);
          output = [(''description'', JNull), (''enumValues'', JNull), (''interfaces'', JList []),
                    (''kind'', type_kind t'), (''name'', type_name t'), (''possibleTypes'', JNull)]
      in if type_kind t' = JStr ''OBJECT'' \<or> type_kind t' = JStr ''INTERFACE'' then
           bind_err (for_each Field_to_json (type_fields t')) (\<lambda>fs.
             Inr (JObj (output @ [(''fields'', JList fs), (''inputFields'', JNull)]), t'))
         else if type_kind t' = JStr ''INPUT_OBJECT'' then
           bind_err (for_each Field_to_json (type_fields t')) (\<lambda>fs.
             Inr (JObj (output @ [(''fields'', JNull), (''inputFields'', JList fs)]), t'))
         else Inr (JObj output, t'))"

text \<open>The loop of \<^verbatim>\<open>Type.from_json\<close>, with its \<^verbatim>\<open>continue\<close> on a field named \<^verbatim>\<open>dummy\<close>.\<close>

fun from_json_fields :: "json list \<Rightarrow> error + Field list" where
  "from_json_fields [] = Inr []"
| "from_json_fields (f # fs) =
     bind_err (subscript f ''name'') (\<lambda>n.
       if n = JStr ''dummy'' then from_json_fields fs
       else bind_err (Field_from_json f) (\<lambda>fld.
            bind_err (from_json_fields fs) (\<lambda>rest. Inr (fld # rest))))"

definition Type_from_json :: "json \<Rightarrow> error + Type" where
  "Type_from_json jso =
     bind_err (subscript jso ''name'') (\<lambda>n.
     bind_err (subscript jso ''kind'') (\<lambda>k.
       if k = JStr ''OBJECT'' \<or> k = JStr ''INTERFACE'' \<or> k = JStr ''INPUT_OBJECT'' then
         (let fields_field =
                (if k = JStr ''OBJECT'' \<or> k = JStr ''INTERFACE'' then ''fields''
                 else if k = JStr ''INPUT_OBJECT'' then ''inputFields'' else [])
          in bind_err (subscript jso fields_field) (\<lambda>fj.
             bind_err (py_iter fj) (\<lambda>items.
             bind_err (from_json_fields items) (\<lambda>fields.
               Inr (Type_init n k (Some fields))))))
       else Inr (Type_init n k (Some []))))"

section \<open>Schema\<close>

text \<open>
  The dictionary \<^verbatim>\<open>self._schema\<close> has the same five keys on both paths of
  \<^verbatim>\<open>Schema.__init__\<close>; it is a record here, and \<^verbatim>\<open>schema_json\<close> is the dictionary itself.
  \<^verbatim>\<open>self.types\<close> is a dictionary from names to \<^verbatim>\<open>Type\<close> objects, in insertion order;
  the methods look it up with strings only.
  The attributes \<^verbatim>\<open>queryType\<close>, \<^verbatim>\<open>mutationType\<close> and \<^verbatim>\<open>subscriptionType\<close>, which no method
  reads after \<^verbatim>\<open>__init__\<close>, are the values stored in \<^verbatim>\<open>_schema\<close>.
\<close>

record schema_dict =
  sd_directives :: json
  sd_mutationType :: json
  sd_queryType :: json
  sd_subscriptionType :: json
  sd_types :: "json list"

record Schema =
  schema :: schema_dict
  types :: "(json \<times> Type) list"

definition schema_json :: "schema_dict \<Rightarrow> json" where
  "schema_json d =
     JObj [(''directives'', sd_directives d), (''mutationType'', sd_mutationType d),
           (''queryType'', sd_queryType d), (''subscriptionType'', sd_subscriptionType d),
           (''types'', JList (sd_types d))]"

text \<open>\<^verbatim>\<open>k in d\<close> and \<^verbatim>\<open>d[k] = v\<close> on an insertion-ordered dictionary.\<close>

definition dict_contains :: "('k \<times> 'v) list \<Rightarrow> 'k \<Rightarrow> bool" where
  "dict_contains d k = (map_of d k \<noteq> None)"

fun dict_set :: "('k \<times> 'v) list \<Rightarrow> 'k \<Rightarrow> 'v \<Rightarrow> ('k \<times> 'v) list" where
  "dict_set [] k v = [(k, v)]"
| "dict_set (p # ps) k v = (if fst p = k then (k, v) # ps else p # dict_set ps k v)"

text \<open>Lists and dictionaries cannot be keys of a dictionary.\<close>

fun hashable :: "json \<Rightarrow> bool" where
  "hashable (JList xs) = False"
| "hashable (JObj kvs) = False"
| "hashable JNull = True"
| "hashable (JBool b) = True"
| "hashable (JInt i) = True"
| "hashable (JStr s) = True"

definition add_type :: "Schema \<Rightarrow> string \<Rightarrow> string \<Rightarrow> Schema" where
  "add_type s n k =
     (if \<not> dict_contains (types s) (JStr n)
      then s \<lparr> types := dict_set (types s) (JStr n) (Type_init (JStr n) (JStr k) None) \<rparr>
      else s)"

text \<open>The three optional root names of the constructor: \<^verbatim>\<open>None\<close> or a string.\<close>

definition root_binding :: "string option \<Rightarrow> json" where
  "root_binding r =
     (case r of None \<Rightarrow> JNull
      | Some n \<Rightarrow> if n \<noteq> [] then JObj [(''name'', JStr n)] else JNull)"

definition add_root :: "string option \<Rightarrow> Schema \<Rightarrow> Schema" where
  "add_root r s =
     (case r of None \<Rightarrow> s
      | Some n \<Rightarrow> if truthy (root_binding r) then add_type s n ''OBJECT'' else s)"

fun load_types :: "(json \<times> Type) list \<Rightarrow> json list \<Rightarrow> error + (json \<times> Type) list" where
  "load_types d [] = Inr d"
| "load_types d (t # ts) =
     bind_err (Type_from_json t) (\<lambda>typ.
       if hashable (type_name typ) then load_types (dict_set d (type_name typ) typ) ts
       else Inl TypeError)"

definition Schema_init ::
    "string option \<Rightarrow> string option \<Rightarrow> string option \<Rightarrow> json \<Rightarrow> error + Schema" where
  "Schema_init queryType mutationType subscriptionType sch =
     (if truthy sch then
        bind_err (subscript sch ''data'') (\<lambda>d.
        bind_err (subscript d ''__schema'') (\<lambda>inner.
        bind_err (subscript inner ''directives'') (\<lambda>dirs.
        bind_err (subscript inner ''mutationType'') (\<lambda>m.
        bind_err (subscript inner ''queryType'') (\<lambda>q.
        bind_err (subscript inner ''subscriptionType'') (\<lambda>sub.
        bind_err (subscript inner ''types'') (\<lambda>tj.
        bind_err (py_iter tj) (\<lambda>items.
        bind_err (load_types [] items) (\<lambda>tys.
          Inr \<lparr> schema = \<lparr> sd_directives = dirs, sd_mutationType = m, sd_queryType = q,
                            sd_subscriptionType = sub, sd_types = [] \<rparr>,
                types = tys \<rparr>)))))))))
      else
        Inr (add_root subscriptionType (add_root mutationType (add_root queryType
          \<lparr> schema = \<lparr> sd_directives = JList [],
                        sd_mutationType = root_binding mutationType,
                        sd_queryType = root_binding queryType,
                        sd_subscriptionType = root_binding subscriptionType,
                        sd_types = [] \<rparr>,
            types = [(JStr ''String'', Type_init (JStr ''String'') (JStr ''SCALAR'') None),
                     (JStr ''ID'', Type_init (JStr ''ID'') (JStr ''SCALAR'') None)] \<rparr>))))"

text \<open>
  \<^verbatim>\<open>Schema.to_json\<close>: the loop serializes every \<^verbatim>\<open>Type\<close> (which may change it) and appends
  the wire object to the list \<^verbatim>\<open>self._schema["types"]\<close>. The result of the model is the
  document handed to \<^verbatim>\<open>json.dumps\<close> (whose rendering as text is the standard library's)
  and the \<^verbatim>\<open>Schema\<close> after the call.
\<close>

fun types_to_json :: "(json \<times> Type) list \<Rightarrow> error + (json list \<times> (json \<times> Type) list)" where
  "types_to_json [] = Inr ([], [])"
| "types_to_json (p # ps) =
     bind_err (Type_to_json (snd p)) (\<lambda>r.
     bind_err (types_to_json ps) (\<lambda>rs.
       Inr (fst r # fst rs, (fst p, snd r) # snd rs)))"

definition Schema_to_json :: "Schema \<Rightarrow> error + (json \<times> Schema)" where
  "Schema_to_json s =
     bind_err (types_to_json (types s)) (\<lambda>r.
       (let d = (schema s) \<lparr> sd_types := sd_types (schema s) @ fst r \<rparr>
        in Inr (JObj [(''data'', JObj [(''__schema'', schema_json d)])],
                s \<lparr> schema := d, types := snd r \<rparr>)))"

text \<open>
  \<^verbatim>\<open>Schema.get_path_from_root\<close>. The two nested \<^verbatim>\<open>for\<close> loops change \<^verbatim>\<open>name\<close> and the
  path while they scan, and later comparisons of the same scan use the new name. The
  \<^verbatim>\<open>while\<close> loop around them has no bound, so it is a partial function: \<^verbatim>\<open>None\<close> is a
  call that never returns.
\<close>

fun scan_fields :: "Field list \<Rightarrow> json \<Rightarrow> json list \<times> json \<Rightarrow> json list \<times> json" where
  "scan_fields [] tn st = st"
| "scan_fields (f # fs) tn st =
     scan_fields fs tn
       (if ref_name (field_type f) = snd st then (field_name f # fst st, tn) else st)"

fun scan_types :: "(json \<times> Type) list \<Rightarrow> json list \<times> json \<Rightarrow> json list \<times> json" where
  "scan_types [] st = st"
| "scan_types (p # ps) st = scan_types ps (scan_fields (type_fields (snd p)) (type_name (snd p)) st)"

partial_function (option) path_loop ::
    "(json \<times> Type) list \<Rightarrow> json list \<Rightarrow> json list \<times> json \<Rightarrow> (json list \<times> json) option" where
  "path_loop tys roots st =
     (if snd st \<in> set roots then Some st else path_loop tys roots (scan_types tys st))"

definition root_name :: "json \<Rightarrow> error + json" where
  "root_name r = (if truthy r then subscript r ''name'' else Inr (JStr []))"

definition get_path_from_root :: "Schema \<Rightarrow> string \<Rightarrow> (error + json list) option" where
  "get_path_from_root s n =
     (if \<not> dict_contains (types s) (JStr n) then Some (Inl (Exception (Not_in_schema n)))
      else
        (case bind_err (root_name (sd_queryType (schema s))) (\<lambda>q.
              bind_err (root_name (sd_mutationType (schema s))) (\<lambda>m.
              bind_err (root_name (sd_subscriptionType (schema s))) (\<lambda>sub.
                Inr (filter truthy [q, m, sub])))) of
           Inl e \<Rightarrow> Some (Inl e)
         | Inr roots \<Rightarrow>
             map_option (\<lambda>st. Inr (snd st # fst st)) (path_loop (types s) roots ([], JStr n))))"

text \<open>
  \<^verbatim>\<open>Schema.convert_path_to_document\<close>: the loop pops the last name while more than one is
  left, then the remaining head is compared with the root names in turn.
\<close>

function wrap_path :: "string list \<Rightarrow> string \<Rightarrow> string list \<times> string" where
  "wrap_path path doc =
     (if length path > 1 then wrap_path (butlast path) (last path @ '' { '' @ doc @ '' }'')
      else (path, doc))"
  by pat_completeness auto
termination
  by (relation "measure (\<lambda>(path, doc). length path)") auto

definition convert_path_to_document :: "Schema \<Rightarrow> string list \<Rightarrow> error + string" where
  "convert_path_to_document s path =
     (case wrap_path path ''FUZZ'' of (rest, doc) \<Rightarrow>
        (case rest of
           [] \<Rightarrow> Inl IndexError
         | h # others \<Rightarrow>
             bind_err (subscript (sd_queryType (schema s)) ''name'') (\<lambda>q.
               if JStr h = q then Inr (''query { '' @ doc @ '' }'')
               else bind_err (subscript (sd_mutationType (schema s)) ''name'') (\<lambda>m.
                 if JStr h = m then Inr (''mutation { '' @ doc @ '' }'')
                 else bind_err (subscript (sd_subscriptionType (schema s)) ''name'') (\<lambda>sub.
                   if JStr h = sub then Inr (''subscription { '' @ doc @ '' }'')
                   else Inl (Exception Unknown_operation_type))))))"

section \<open>Schemas and observations used in the statements\<close>

text \<open>The schema that \<^verbatim>\<open>Schema(queryType="Query")\<close> builds.\<close>

definition query_schema :: Schema where
  "query_schema =
     \<lparr> schema = \<lparr> sd_directives = JList [], sd_mutationType = JNull,
                    sd_queryType = JObj [(''name'', JStr ''Query'')],
                    sd_subscriptionType = JNull, sd_types = [] \<rparr>,
       types = [(JStr ''String'', Type_init (JStr ''String'') (JStr ''SCALAR'') None),
                (JStr ''ID'', Type_init (JStr ''ID'') (JStr ''SCALAR'') None),
                (JStr ''Query'', Type_init (JStr ''Query'') (JStr ''OBJECT'') None)] \<rparr>"

text \<open>
  Discovery adds a field with \<^verbatim>\<open>schema.types[n].fields.append(f)\<close>; \<^verbatim>\<open>object_field n t\<close> is
  \<^verbatim>\<open>Field(n, TypeRef(t, "OBJECT"))\<close>.
\<close>

definition append_field :: "Schema \<Rightarrow> string \<Rightarrow> Field \<Rightarrow> Schema" where
  "append_field s n f =
     s \<lparr> types := map (\<lambda>p. if fst p = JStr n
                             then (fst p, (snd p) \<lparr> type_fields := type_fields (snd p) @ [f] \<rparr>)
                             else p) (types s) \<rparr>"

definition object_field :: "string \<Rightarrow> string \<Rightarrow> Field" where
  "object_field n t =
     Field_init (JStr n) (Some (TypeRef_init (JStr t) (JStr ''OBJECT'') False False True False)) None"

text \<open>The schema \<^verbatim>\<open>{Query: {a: TypeA}, TypeA: {b: TypeB}}\<close> with root \<^verbatim>\<open>Query\<close>.\<close>

definition example_schema :: Schema where
  "example_schema =
     append_field
       (append_field
          (add_type (add_type query_schema ''TypeA'' ''OBJECT'') ''TypeB'' ''OBJECT'')
          ''Query'' (object_field ''a'' ''TypeA''))
       ''TypeA'' (object_field ''b'' ''TypeB'')"

text \<open>The \<^verbatim>\<open>Type\<close> after the first statement of \<^verbatim>\<open>Type.to_json\<close>.\<close>

definition with_placeholder :: "Type \<Rightarrow> Type" where
  "with_placeholder t = (if type_fields t = [] then t \<lparr> type_fields := [dummy] \<rparr> else t)"

text \<open>Calling \<^verbatim>\<open>Type.to_json\<close> \<open>n\<close> times on one object: the outputs, and the object at the end.\<close>

fun to_json_times :: "nat \<Rightarrow> Type \<Rightarrow> error + (json list \<times> Type)" where
  "to_json_times 0 t = Inr ([], t)"
| "to_json_times (Suc n) t =
     bind_err (Type_to_json t) (\<lambda>r.
     bind_err (to_json_times n (snd r)) (\<lambda>rs. Inr (fst r # fst rs, snd rs)))"

text \<open>The wire object of the placeholder field, and of a \<^verbatim>\<open>Type\<close>.\<close>

definition dummy_wire :: json where
  "dummy_wire =
     JObj [(''args'', JList []), (''deprecationReason'', JNull),
           (''description'', JNull), (''isDeprecated'', JBool False),
           (''name'', JStr ''dummy''),
           (''type'', wire_node (JStr ''NON_NULL'') JNull
                        (wire_node (JStr ''SCALAR'') (JStr ''String'') JNull))]"

definition wire_of :: "Type \<Rightarrow> error + json" where
  "wire_of t = bind_err (Type_to_json t) (\<lambda>r. Inr (fst r))"


text \<open>A \<^verbatim>\<open>Type\<close> without fields, and a wire object with the placeholder and one real field.\<close>

definition empty_query :: Type where
  "empty_query = Type_init (JStr ''Query'') (JStr ''OBJECT'') None"

definition query_wire :: json where
  "query_wire =
     JObj [(''description'', JNull), (''enumValues'', JNull), (''interfaces'', JList []),
           (''kind'', JStr ''OBJECT''), (''name'', JStr ''Query''), (''possibleTypes'', JNull),
           (''fields'', JList [dummy_wire,
               JObj [(''args'', JList []), (''deprecationReason'', JNull),
                     (''description'', JNull), (''isDeprecated'', JBool False),
                     (''name'', JStr ''a''),
                     (''type'', wire_node (JStr ''OBJECT'') (JStr ''TypeA'') JNull)]]),
           (''inputFields'', JNull)]"


section \<open>Auxiliary facts\<close>

lemma bind_err_Inr: "bind_err m f = Inr y \<longleftrightarrow> (\<exists>x. m = Inr x \<and> f x = Inr y)"
  by (cases m) auto

lemmas codec_defs = TypeRef_to_json_def TypeRef_init_def field_or_arg_type_from_json_def
  wire_node_def named_ref_def Let_def

lemma Schema_init_query: "Schema_init (Some ''Query'') None None JNull = Inr query_schema"
  by (simp add: Schema_init_def query_schema_def add_root_def root_binding_def add_type_def
        dict_contains_def Type_init_def)

lemma example_types:
  "types example_schema =
     [(JStr ''String'', Type_init (JStr ''String'') (JStr ''SCALAR'') None),
      (JStr ''ID'', Type_init (JStr ''ID'') (JStr ''SCALAR'') None),
      (JStr ''Query'', Type_init (JStr ''Query'') (JStr ''OBJECT'') (Some [object_field ''a'' ''TypeA''])),
      (JStr ''TypeA'', Type_init (JStr ''TypeA'') (JStr ''OBJECT'') (Some [object_field ''b'' ''TypeB''])),
      (JStr ''TypeB'', Type_init (JStr ''TypeB'') (JStr ''OBJECT'') None)]"
  by (simp add: example_schema_def query_schema_def append_field_def add_type_def
        dict_contains_def Type_init_def)

lemma example_roots:
  "schema example_schema =
     \<lparr> sd_directives = JList [], sd_mutationType = JNull,
       sd_queryType = JObj [(''name'', JStr ''Query'')],
       sd_subscriptionType = JNull, sd_types = [] \<rparr>"
  by (simp add: example_schema_def query_schema_def append_field_def add_type_def
        dict_contains_def Type_init_def)

text \<open>
  The codec is the identity exactly on the list references with non-nullable items; on
  every other reference the decoded value differs from the encoded one.
\<close>

lemma roundtrip_iff:
  "bind_err (TypeRef_to_json (TypeRef_init n k il ilin inl iio)) field_or_arg_type_from_json
     = Inr (Some (TypeRef_init n k il ilin inl iio))
   \<longleftrightarrow> (il \<and> \<not> ilin \<and> \<not> iio)"
  by (cases il; cases ilin; cases inl; cases iio) (auto simp add: codec_defs)

text \<open>A scan that finds no field of the wanted type leaves path and name as they were.\<close>

lemma scan_fields_none:
  "\<forall>f \<in> set fs. ref_name (field_type f) \<noteq> snd st \<Longrightarrow> scan_fields fs tn st = st"
  by (induction fs) auto

lemma scan_types_none:
  "\<forall>p \<in> set tys. \<forall>f \<in> set (type_fields (snd p)). ref_name (field_type f) \<noteq> snd st
   \<Longrightarrow> scan_types tys st = st"
  by (induction tys) (auto simp: scan_fields_none)

lemma path_loop_Some_moves:
  assumes "path_loop tys roots st = Some y"
  shows "\<not> (snd st \<notin> set roots \<and> scan_types tys st = st)"
proof (rule path_loop.raw_induct
        [where P = "\<lambda>tys roots st y. \<not> (snd st \<notin> set roots \<and> scan_types tys st = st)", OF _ assms])
  fix loop :: "(json \<times> Type) list \<Rightarrow> json list \<Rightarrow> json list \<times> json \<Rightarrow> (json list \<times> json) option"
  fix tys roots st y
  assume IH: "\<And>tys roots st y. loop tys roots st = Some y \<Longrightarrow>
                 \<not> (snd st \<notin> set roots \<and> scan_types tys st = st)"
    and eq: "(if snd st \<in> set roots then Some st else loop tys roots (scan_types tys st)) = Some y"
  show "\<not> (snd st \<notin> set roots \<and> scan_types tys st = st)"
  proof
    assume inv: "snd st \<notin> set roots \<and> scan_types tys st = st"
    with eq have "loop tys roots st = Some y" by simp
    from IH[OF this] inv show False by simp
  qed
qed

text \<open>So the loop never returns from a state that is not a root and that a scan leaves unchanged.\<close>

lemma path_loop_stuck:
  assumes "snd st \<notin> set roots" and "scan_types tys st = st"
  shows "path_loop tys roots st = None"
proof (cases "path_loop tys roots st")
  case None
  then show ?thesis .
next
  case (Some y)
  from path_loop_Some_moves[OF this] assms show ?thesis by simp
qed

lemma unreachable_diverges:
  assumes "dict_contains (types s) (JStr n)"
    and "root_name (sd_queryType (schema s)) = Inr q"
    and "root_name (sd_mutationType (schema s)) = Inr m"
    and "root_name (sd_subscriptionType (schema s)) = Inr sub"
    and "JStr n \<notin> {q, m, sub}"
    and "\<forall>p \<in> set (types s). \<forall>f \<in> set (type_fields (snd p)). ref_name (field_type f) \<noteq> JStr n"
  shows "get_path_from_root s n = None"
proof -
  have "path_loop (types s) (filter truthy [q, m, sub]) ([], JStr n) = None"
    using assms(5,6) by (intro path_loop_stuck scan_types_none) auto
  with assms(1-4) show ?thesis
    by (simp add: get_path_from_root_def)
qed

lemma dict_set_contains: "dict_contains (dict_set d k v) k"
  by (induction d) (auto simp: dict_contains_def)

lemma dummy_json: "Field_to_json dummy = Inr dummy_wire"
  by (simp add: Field_to_json_def dummy_def Field_init_def TypeRef_to_json_def TypeRef_init_def
        Let_def dummy_wire_def)

text \<open>After one call of \<^verbatim>\<open>Type.to_json\<close> a further call returns the same and changes nothing.\<close>

lemma to_json_settled:
  assumes "Type_to_json t = Inr (w, t')"
  shows "Type_to_json t' = Inr (w, t')"
  using assms by (auto simp: Type_to_json_def Let_def bind_err_Inr split: if_splits)

lemma to_json_empty:
  assumes "type_fields t = []"
  shows "\<exists>out. Type_to_json t = Inr (out, t \<lparr> type_fields := [dummy] \<rparr>)
           \<and> Type_from_json out = Inr t"
  using assms
  by (cases t)
     (auto simp: Type_to_json_def Let_def dummy_json Type_from_json_def Type_init_def dummy_wire_def)

lemma to_json_times_settled:
  "Type_to_json t = Inr (w, t) \<Longrightarrow> to_json_times n t = Inr (replicate n w, t)"
  by (induction n) auto

lemma from_json_fields_no_dummy:
  "from_json_fields items = Inr fs \<Longrightarrow> JStr ''dummy'' \<notin> field_name ` set fs"
proof (induction items arbitrary: fs)
  case Nil
  then show ?case by simp
next
  case (Cons f items)
  then show ?case
    by (auto simp: bind_err_Inr Field_init_def split: if_splits)
qed

lemma Type_from_json_no_dummy:
  assumes "Type_from_json jso = Inr t"
  shows "JStr ''dummy'' \<notin> field_name ` set (type_fields t)"
proof -
  from assms obtain n k where k: "subscript jso ''kind'' = Inr k"
    and body: "(if k = JStr ''OBJECT'' \<or> k = JStr ''INTERFACE'' \<or> k = JStr ''INPUT_OBJECT'' then
         (let fields_field =
                (if k = JStr ''OBJECT'' \<or> k = JStr ''INTERFACE'' then ''fields''
                 else if k = JStr ''INPUT_OBJECT'' then ''inputFields'' else [])
          in bind_err (subscript jso fields_field) (\<lambda>fj.
             bind_err (py_iter fj) (\<lambda>items.
             bind_err (from_json_fields items) (\<lambda>fields.
               Inr (Type_init n k (Some fields))))))
       else Inr (Type_init n k (Some []))) = Inr t"
    unfolding Type_from_json_def bind_err_Inr by blast
  show ?thesis
  proof (cases "k = JStr ''OBJECT'' \<or> k = JStr ''INTERFACE'' \<or> k = JStr ''INPUT_OBJECT''")
    case False
    with body have "t = Type_init n k (Some [])" by simp
    then show ?thesis by (simp add: Type_init_def)
  next
    case True
    define key where "key = (if k = JStr ''OBJECT'' \<or> k = JStr ''INTERFACE'' then ''fields''
                 else if k = JStr ''INPUT_OBJECT'' then ''inputFields'' else [])"
    from body True have "bind_err (subscript jso key) (\<lambda>fj.
             bind_err (py_iter fj) (\<lambda>items.
             bind_err (from_json_fields items) (\<lambda>fields.
               Inr (Type_init n k (Some fields))))) = Inr t"
      unfolding key_def Let_def by (simp only: if_True)
    then obtain items fs where "from_json_fields items = Inr fs" "t = Type_init n k (Some fs)"
      unfolding bind_err_Inr by blast
    with from_json_fields_no_dummy[of items fs] show ?thesis by (simp add: Type_init_def)
  qed
qed


lemma query_wire_decoded:
  "Type_from_json query_wire = Inr (Type_init (JStr ''Query'') (JStr ''OBJECT'') (Some [object_field ''a'' ''TypeA'']))"
  by (simp add: query_wire_def Type_from_json_def dummy_wire_def wire_node_def
        field_or_arg_type_from_json_def named_ref_def object_field_def Field_init_def)

text \<open>Both paths of \<^verbatim>\<open>Schema.__init__\<close> start the list \<^verbatim>\<open>_schema["types"]\<close> empty.\<close>

lemma add_type_schema: "schema (add_type s n k) = schema s"
  by (simp add: add_type_def)

lemma add_root_schema: "schema (add_root r s) = schema s"
  by (simp add: add_root_def add_type_schema split: option.splits)

lemma Schema_init_types_empty:
  assumes "Schema_init q m sub j = Inr s"
  shows "sd_types (schema s) = []"
proof (cases "truthy j")
  case True
  with assms show ?thesis
    by (auto simp: Schema_init_def bind_err_Inr)
next
  case False
  with assms have "s = add_root sub (add_root m (add_root q
          \<lparr> schema = \<lparr> sd_directives = JList [],
                        sd_mutationType = root_binding m,
                        sd_queryType = root_binding q,
                        sd_subscriptionType = root_binding sub,
                        sd_types = [] \<rparr>,
            types = [(JStr ''String'', Type_init (JStr ''String'') (JStr ''SCALAR'') None),
                     (JStr ''ID'', Type_init (JStr ''ID'') (JStr ''SCALAR'') None)] \<rparr>))"
    by (simp add: Schema_init_def)
  then show ?thesis by (simp add: add_root_schema)
qed

text \<open>Every two-level node with outer kind \<^verbatim>\<open>NON_NULL\<close> is decoded to \<^verbatim>\<open>None\<close>.\<close>

lemma two_level_non_null:
  assumes "subscript jso ''kind'' = Inr (JStr ''NON_NULL'')"
    and "subscript jso ''ofType'' = Inr o1"
    and "subscript o1 ''ofType'' = Inr o2"
    and "subscript o2 ''ofType'' = Inr o3"
    and "\<not> truthy o3"
  shows "field_or_arg_type_from_json jso = Inr None"
proof -
  have "truthy o2" using assms(4) by (cases o2) (auto split: option.splits)
  with assms show ?thesis by (simp add: field_or_arg_type_from_json_def)
qed

text \<open>The values that Python counts as false.\<close>

lemma truthy_iff:
  "truthy v \<longleftrightarrow> v \<notin> {JNull, JBool False, JInt 0, JStr [], JList [], JObj []}"
  by (cases v) auto

text \<open>\<^verbatim>\<open>Schema.to_json\<close> returns exactly when every type of the schema has a wire object.\<close>

lemma types_to_json_returns:
  "(\<exists>r. types_to_json ps = Inr r) \<longleftrightarrow> list_all (\<lambda>p. \<exists>w. wire_of (snd p) = Inr w) ps"
proof (induction ps)
  case Nil
  show ?case by simp
next
  case (Cons p ps)
  show ?case
  proof (cases "Type_to_json (snd p)")
    case (Inl e)
    then show ?thesis by (simp add: wire_of_def)
  next
    case (Inr r)
    with Cons show ?thesis
      by (cases "types_to_json ps") (auto simp: wire_of_def)
  qed
qed

lemma Schema_to_json_returns:
  "(\<exists>r. Schema_to_json s = Inr r) \<longleftrightarrow> list_all (\<lambda>p. \<exists>w. wire_of (snd p) = Inr w) (types s)"
  unfolding types_to_json_returns[symmetric]
  by (cases "types_to_json (types s)") (auto simp: Schema_to_json_def Let_def)

section \<open>The codec of type references\<close>

text \<open>
  C1. Decoding the encoding of a reference should give the reference back, for a bare
  nullable reference among the other supported shapes. On the code it does not: the
  bare reference \<^verbatim>\<open>TypeRef(name="String", kind="SCALAR")\<close> has \<^verbatim>\<open>non_null_item\<close> set (the
  default of \<^verbatim>\<open>is_list_item_nullable\<close> is \<^verbatim>\<open>False\<close>), so it is encoded as a \<^verbatim>\<open>NON_NULL\<close>
  wrapper and decoded as a non-nullable reference, which is a different reference.
\<close>

theorem bare_ref_roundtrip_fails:
  "TypeRef_to_json (TypeRef_init (JStr ''String'') (JStr ''SCALAR'') False False True False)
     = Inr (wire_node (JStr ''NON_NULL'') JNull (wire_node (JStr ''SCALAR'') (JStr ''String'') JNull))
   \<and> field_or_arg_type_from_json
        (wire_node (JStr ''NON_NULL'') JNull (wire_node (JStr ''SCALAR'') (JStr ''String'') JNull))
     = Inr (Some (TypeRef_init (JStr ''String'') (JStr ''SCALAR'') False False False False))
   \<and> TypeRef_init (JStr ''String'') (JStr ''SCALAR'') False False False False
     \<noteq> TypeRef_init (JStr ''String'') (JStr ''SCALAR'') False False True False"
  by (simp add: codec_defs)

text \<open>
  C5 (amended). A wire node whose kind is \<^verbatim>\<open>NON_NULL\<close> or \<^verbatim>\<open>LIST\<close> and whose chain of
  \<^verbatim>\<open>ofType\<close> values reaches a fourth level that Python counts as true (any value other
  than null, false, 0, the empty string, the empty list and the empty dictionary) is
  rejected with the exception "too many ofType"; nothing is returned.
\<close>

theorem four_levels_rejected:
  assumes "subscript jso ''kind'' = Inr k"
    and "k = JStr ''NON_NULL'' \<or> k = JStr ''LIST''"
    and "subscript jso ''ofType'' = Inr o1"
    and "subscript o1 ''ofType'' = Inr o2"
    and "subscript o2 ''ofType'' = Inr o3"
    and "subscript o3 ''ofType'' = Inr o4"
    and "truthy o4"
  shows "field_or_arg_type_from_json jso = Inl (Exception Too_many_ofType)"
proof -
  have t2: "truthy o2" using assms(5) by (cases o2) (auto split: option.splits)
  have t3: "truthy o3" using assms(6) by (cases o3) (auto split: option.splits)
  show ?thesis using assms t2 t3 by (auto simp: field_or_arg_type_from_json_def)
qed

text \<open>The amended statement at the node \<^verbatim>\<open>NON_NULL(LIST(NON_NULL(LIST(String))))\<close>.\<close>

theorem four_levels_rejected_witness:
  "subscript (wire_node (JStr ''NON_NULL'') JNull (wire_node (JStr ''LIST'') JNull
      (wire_node (JStr ''NON_NULL'') JNull (wire_node (JStr ''LIST'') JNull
         (wire_node (JStr ''SCALAR'') (JStr ''String'') JNull))))) ''kind'' = Inr (JStr ''NON_NULL'')
   \<and> truthy (wire_node (JStr ''SCALAR'') (JStr ''String'') JNull)
   \<and> field_or_arg_type_from_json
       (wire_node (JStr ''NON_NULL'') JNull (wire_node (JStr ''LIST'') JNull
         (wire_node (JStr ''NON_NULL'') JNull (wire_node (JStr ''LIST'') JNull
           (wire_node (JStr ''SCALAR'') (JStr ''String'') JNull)))))
     = Inl (Exception Too_many_ofType)"
  using four_levels_rejected
    [of "wire_node (JStr ''NON_NULL'') JNull (wire_node (JStr ''LIST'') JNull
           (wire_node (JStr ''NON_NULL'') JNull (wire_node (JStr ''LIST'') JNull
             (wire_node (JStr ''SCALAR'') (JStr ''String'') JNull))))"
        "JStr ''NON_NULL''"
        "wire_node (JStr ''LIST'') JNull
           (wire_node (JStr ''NON_NULL'') JNull (wire_node (JStr ''LIST'') JNull
             (wire_node (JStr ''SCALAR'') (JStr ''String'') JNull)))"
        "wire_node (JStr ''NON_NULL'') JNull (wire_node (JStr ''LIST'') JNull
             (wire_node (JStr ''SCALAR'') (JStr ''String'') JNull))"
        "wire_node (JStr ''LIST'') JNull (wire_node (JStr ''SCALAR'') (JStr ''String'') JNull)"
        "wire_node (JStr ''SCALAR'') (JStr ''String'') JNull"]
  by (simp add: wire_node_def)

text \<open>
  As written, for every node with a fourth level that is present and not null, the
  statement fails twice: a node of a base kind is decoded from its own name and kind
  whatever hangs below it, and a fourth level that Python counts as false, here an empty
  dictionary, counts as no fourth level.
\<close>

theorem four_levels_accepted:
  "field_or_arg_type_from_json
     (wire_node (JStr ''SCALAR'') (JStr ''String'')
        (wire_node (JStr ''LIST'') JNull (wire_node (JStr ''LIST'') JNull
           (wire_node (JStr ''LIST'') JNull (wire_node (JStr ''SCALAR'') (JStr ''Int'') JNull)))))
     = Inr (Some (TypeRef_init (JStr ''String'') (JStr ''SCALAR'') False False True False))
   \<and> field_or_arg_type_from_json
     (wire_node (JStr ''NON_NULL'') JNull (wire_node (JStr ''LIST'') JNull
        (wire_node (JStr ''NON_NULL'') JNull
           (wire_node (JStr ''SCALAR'') (JStr ''String'') (JObj [])))))
     = Inr (Some (TypeRef_init (JStr ''String'') (JStr ''SCALAR'') True False False False))"
  by (simp add: codec_defs)

text \<open>
  C6. A two-level node with outer kind \<^verbatim>\<open>NON_NULL\<close> should be rejected as malformed. The
  code has \<^verbatim>\<open>pass\<close> in that branch: no exception is raised and the function returns
  \<^verbatim>\<open>None\<close>, here for \<^verbatim>\<open>NON_NULL(NON_NULL(String))\<close>.
\<close>

theorem non_null_of_wrapper_returns_None:
  "field_or_arg_type_from_json
     (wire_node (JStr ''NON_NULL'') JNull (wire_node (JStr ''NON_NULL'') JNull
        (wire_node (JStr ''SCALAR'') (JStr ''String'') JNull))) = Inr None"
  by (simp add: codec_defs)

section \<open>Input values\<close>

text \<open>
  C9. Constructing an \<^verbatim>\<open>InputValue\<close> should succeed and its wire object should have a null
  \<^verbatim>\<open>defaultValue\<close>. On the code the constructor raises NameError for every name and
  every type reference, so no \<^verbatim>\<open>InputValue\<close> is ever built.
\<close>

theorem InputValue_init_raises: "InputValue_init n typ = Inl (NameError ''none'')"
  by (simp add: InputValue_init_def)

section \<open>Types and the placeholder field\<close>

text \<open>
  C3. On a \<^verbatim>\<open>Type\<close> with no fields, any positive number of calls of \<^verbatim>\<open>Type.to_json\<close>
  succeeds and leaves exactly one field, the placeholder named \<^verbatim>\<open>dummy\<close>; every call gives
  the same wire object, and \<^verbatim>\<open>Type.from_json\<close> of that object is the \<^verbatim>\<open>Type\<close> with no
  fields again. Whatever \<^verbatim>\<open>Type.from_json\<close> returns has no field named \<^verbatim>\<open>dummy\<close>.
\<close>

theorem dummy_placeholder:
  assumes "type_fields t = []" and "0 < n"
  shows "(\<exists>out. to_json_times n t = Inr (replicate n out, t \<lparr> type_fields := [dummy] \<rparr>)
              \<and> Type_from_json out = Inr t)
         \<and> field_name dummy = JStr ''dummy''
         \<and> (Type_from_json jso = Inr u \<longrightarrow> JStr ''dummy'' \<notin> field_name ` set (type_fields u))"
proof -
  from to_json_empty[OF assms(1)] obtain out where
    o: "Type_to_json t = Inr (out, t \<lparr> type_fields := [dummy] \<rparr>)" "Type_from_json out = Inr t"
    by blast
  from to_json_settled[OF o(1)]
  have later: "to_json_times m (t \<lparr> type_fields := [dummy] \<rparr>)
      = Inr (replicate m out, t \<lparr> type_fields := [dummy] \<rparr>)" for m
    by (rule to_json_times_settled)
  from assms(2) obtain m where "n = Suc m" by (cases n) auto
  with later[of m] o have "to_json_times n t = Inr (replicate n out, t \<lparr> type_fields := [dummy] \<rparr>)"
    by simp
  with o(2) show ?thesis
    by (auto simp: dummy_def Field_init_def dest: Type_from_json_no_dummy)
qed

text \<open>
  The statement at a \<^verbatim>\<open>Type\<close> named \<^verbatim>\<open>Query\<close> without fields, called twice, and at a wire
  object that holds the placeholder and a field \<^verbatim>\<open>a\<close>.
\<close>

theorem dummy_placeholder_witness:
  "type_fields empty_query = [] \<and> 0 < Suc (Suc 0)
   \<and> (\<exists>out. to_json_times (Suc (Suc 0)) empty_query
                 = Inr ([out, out], empty_query \<lparr> type_fields := [dummy] \<rparr>)
              \<and> Type_from_json out = Inr empty_query)
   \<and> Type_from_json query_wire
        = Inr (Type_init (JStr ''Query'') (JStr ''OBJECT'') (Some [object_field ''a'' ''TypeA'']))
   \<and> JStr ''dummy'' \<notin> field_name ` set (type_fields
        (Type_init (JStr ''Query'') (JStr ''OBJECT'') (Some [object_field ''a'' ''TypeA''])))"
  using dummy_placeholder [of empty_query "Suc (Suc 0)" query_wire
      "Type_init (JStr ''Query'') (JStr ''OBJECT'') (Some [object_field ''a'' ''TypeA''])"]
    query_wire_decoded
  by (simp add: empty_query_def Type_init_def)

text \<open>
  C7 (amended). \<^verbatim>\<open>Type.to_json\<close> chooses the keys by kind. For \<^verbatim>\<open>OBJECT\<close> and \<^verbatim>\<open>INTERFACE\<close>,
  when the fields serialize, \<^verbatim>\<open>fields\<close> holds the serialized field list (after the
  placeholder was added) and \<^verbatim>\<open>inputFields\<close> is null; for \<^verbatim>\<open>INPUT_OBJECT\<close> it is the other
  way round; an exception of a field is the exception of the call. For every other kind
  the call returns and the wire object has neither key.
\<close>

theorem Type_to_json_dispatch:
  "(type_kind t = JStr ''OBJECT'' \<or> type_kind t = JStr ''INTERFACE'' \<longrightarrow>
      (case for_each Field_to_json (type_fields (with_placeholder t)) of
         Inl e \<Rightarrow> Type_to_json t = Inl e
       | Inr fs \<Rightarrow> (\<exists>out. Type_to_json t = Inr (out, with_placeholder t)
                       \<and> subscript out ''fields'' = Inr (JList fs)
                       \<and> subscript out ''inputFields'' = Inr JNull)))
   \<and> (type_kind t = JStr ''INPUT_OBJECT'' \<longrightarrow>
      (case for_each Field_to_json (type_fields (with_placeholder t)) of
         Inl e \<Rightarrow> Type_to_json t = Inl e
       | Inr fs \<Rightarrow> (\<exists>out. Type_to_json t = Inr (out, with_placeholder t)
                       \<and> subscript out ''inputFields'' = Inr (JList fs)
                       \<and> subscript out ''fields'' = Inr JNull)))
   \<and> (type_kind t \<noteq> JStr ''OBJECT'' \<and> type_kind t \<noteq> JStr ''INTERFACE''
        \<and> type_kind t \<noteq> JStr ''INPUT_OBJECT'' \<longrightarrow>
      (\<exists>out. Type_to_json t = Inr (out, with_placeholder t)
             \<and> subscript out ''fields'' = Inl (KeyError ''fields'')
             \<and> subscript out ''inputFields'' = Inl (KeyError ''inputFields'')))"
  by (cases "for_each Field_to_json (type_fields (with_placeholder t))")
     (auto simp: Type_to_json_def Let_def with_placeholder_def)

text \<open>The amended statement at an \<^verbatim>\<open>OBJECT\<close>, an \<^verbatim>\<open>INPUT_OBJECT\<close> and a \<^verbatim>\<open>SCALAR\<close> type.\<close>

theorem Type_to_json_dispatch_witness:
  "(\<exists>out. Type_to_json (Type_init (JStr ''Query'') (JStr ''OBJECT'') None)
             = Inr (out, Type_init (JStr ''Query'') (JStr ''OBJECT'') (Some [dummy]))
          \<and> subscript out ''fields'' = Inr (JList [dummy_wire])
          \<and> subscript out ''inputFields'' = Inr JNull)
   \<and> (\<exists>out. Type_to_json (Type_init (JStr ''Filter'') (JStr ''INPUT_OBJECT'') None)
             = Inr (out, Type_init (JStr ''Filter'') (JStr ''INPUT_OBJECT'') (Some [dummy]))
          \<and> subscript out ''inputFields'' = Inr (JList [dummy_wire])
          \<and> subscript out ''fields'' = Inr JNull)
   \<and> (\<exists>out. Type_to_json (Type_init (JStr ''String'') (JStr ''SCALAR'') None)
             = Inr (out, Type_init (JStr ''String'') (JStr ''SCALAR'') (Some [dummy]))
          \<and> subscript out ''fields'' = Inl (KeyError ''fields'')
          \<and> subscript out ''inputFields'' = Inl (KeyError ''inputFields''))"
  using Type_to_json_dispatch [of "Type_init (JStr ''Query'') (JStr ''OBJECT'') None"]
    Type_to_json_dispatch [of "Type_init (JStr ''Filter'') (JStr ''INPUT_OBJECT'') None"]
    Type_to_json_dispatch [of "Type_init (JStr ''String'') (JStr ''SCALAR'') None"]
  by (simp add: Type_init_def with_placeholder_def dummy_json)

text \<open>
  As written, with both keys present and null for the other kinds, the statement fails:
  the wire object of the scalar \<^verbatim>\<open>String\<close> has six keys, and neither \<^verbatim>\<open>fields\<close> nor
  \<^verbatim>\<open>inputFields\<close> is among them.
\<close>

theorem scalar_has_no_fields_key:
  "Type_to_json (Type_init (JStr ''String'') (JStr ''SCALAR'') None)
     = Inr (JObj [(''description'', JNull), (''enumValues'', JNull), (''interfaces'', JList []),
                  (''kind'', JStr ''SCALAR''), (''name'', JStr ''String''),
                  (''possibleTypes'', JNull)],
            Type_init (JStr ''String'') (JStr ''SCALAR'') (Some [dummy]))
   \<and> subscript (JObj [(''description'', JNull), (''enumValues'', JNull), (''interfaces'', JList []),
                  (''kind'', JStr ''SCALAR''), (''name'', JStr ''String''),
                  (''possibleTypes'', JNull)]) ''fields'' = Inl (KeyError ''fields'')
   \<and> subscript (JObj [(''description'', JNull), (''enumValues'', JNull), (''interfaces'', JList []),
                  (''kind'', JStr ''SCALAR''), (''name'', JStr ''String''),
                  (''possibleTypes'', JNull)]) ''inputFields'' = Inl (KeyError ''inputFields'')"
  by (simp add: Type_to_json_def Type_init_def)

section \<open>The schema graph\<close>

text \<open>
  C4. A second \<^verbatim>\<open>add_type\<close> with the same name, whatever kind it passes, leaves the schema
  as the first call left it; and when the name is present already, \<^verbatim>\<open>add_type\<close> returns
  the schema unchanged, so the stored \<^verbatim>\<open>Type\<close>, its kind and its fields stay.
\<close>

theorem add_type_idempotent:
  "add_type (add_type s n k) n k' = add_type s n k
   \<and> (dict_contains (types s) (JStr n) \<longrightarrow> add_type s n k' = s)"
  by (simp add: add_type_def dict_set_contains)

text \<open>The statement at the root type \<^verbatim>\<open>Query\<close> of \<^verbatim>\<open>Schema(queryType="Query")\<close>.\<close>

theorem add_type_idempotent_witness:
  "add_type (add_type query_schema ''Query'' ''OBJECT'') ''Query'' ''SCALAR''
     = add_type query_schema ''Query'' ''OBJECT''
   \<and> dict_contains (types query_schema) (JStr ''Query'')
   \<and> add_type query_schema ''Query'' ''SCALAR'' = query_schema"
  using add_type_idempotent [of query_schema "''Query''" "''OBJECT''" "''SCALAR''"]
  by (simp add: query_schema_def dict_contains_def)

text \<open>
  C2. In the schema \<^verbatim>\<open>{Query: {a: TypeA}, TypeA: {b: TypeB}}\<close> with root \<^verbatim>\<open>Query\<close>, the path
  from the root to \<^verbatim>\<open>TypeB\<close> is \<^verbatim>\<open>["Query", "a", "b"]\<close> (the search returns, with these three
  strings), and the document of that path is \<^verbatim>\<open>query { a { b { FUZZ } } }\<close>.
\<close>

theorem example_path_and_document:
  "get_path_from_root example_schema ''TypeB'' = Some (Inr (map JStr [''Query'', ''a'', ''b'']))
   \<and> convert_path_to_document example_schema [''Query'', ''a'', ''b'']
       = Inr ''query { a { b { FUZZ } } }''"
  by (simp add: get_path_from_root_def convert_path_to_document_def example_types example_roots
        dict_contains_def root_name_def path_loop.simps Type_init_def object_field_def
        Field_init_def TypeRef_init_def)

text \<open>
  C8. For a type that is in the schema and that no root reaches, the search should end
  with a failure of its own. On the code it does not end: in \<^verbatim>\<open>Schema(queryType="Query")\<close>
  the type \<^verbatim>\<open>String\<close> is present, is not a root and is the type of no field, every scan
  leaves the name as it was, and the \<^verbatim>\<open>while\<close> loop never returns.
\<close>

theorem unreachable_type_loops_forever:
  "Schema_init (Some ''Query'') None None JNull = Inr query_schema
   \<and> dict_contains (types query_schema) (JStr ''String'')
   \<and> get_path_from_root query_schema ''String'' = None"
proof -
  have "get_path_from_root query_schema ''String'' = None"
    by (rule unreachable_diverges [where q = "JStr ''Query''" and m = "JStr []" and sub = "JStr []"])
       (simp_all add: query_schema_def dict_contains_def root_name_def Type_init_def)
  then show ?thesis
    by (simp add: Schema_init_query) (simp add: query_schema_def dict_contains_def)
qed




end
